theory Spec2Isabelle
  imports Main
begin

section \<open>JavaScript strings\<close>

text \<open>
  A JavaScript string is modelled as a \<^typ>\<open>string\<close>: the list of the bytes of its
  UTF-8 encoding. One well-formed text starts with, ends with or contains another
  exactly when its bytes do, so \<^verbatim>\<open>startsWith\<close>, \<^verbatim>\<open>endsWith\<close> and
  \<^verbatim>\<open>String.prototype.replace\<close> are written on the bytes.
  \<^verbatim>\<open>replace\<close> with a string pattern replaces the first occurrence of the pattern
  only (the replacement text \<^verbatim>\<open>{SECRET}\<close> holds no \<^verbatim>\<open>$\<close> pattern).
\<close>

definition startsWith :: "string \<Rightarrow> string \<Rightarrow> bool" where
  "startsWith s p = (take (length p) s = p)"

definition endsWith :: "string \<Rightarrow> string \<Rightarrow> bool" where
  "endsWith s p = (length p \<le> length s \<and> drop (length s - length p) s = p)"

text \<open>
  The white space and line terminators of ECMAScript, which \<^verbatim>\<open>trim\<close> strips, by
  their UTF-8 encodings: U+0009 to U+000D, U+0020, U+00A0, U+1680, U+2000 to U+200A,
  U+2028, U+2029, U+202F, U+205F, U+3000 and U+FEFF.
\<close>

definition whiteSpace :: "string list" where
  "whiteSpace =
     [[CHR 0x09], [CHR 0x0A], [CHR 0x0B], [CHR 0x0C], [CHR 0x0D], [CHR 0x20],
      [CHR 0xC2, CHR 0xA0], [CHR 0xE1, CHR 0x9A, CHR 0x80],
      [CHR 0xE2, CHR 0x80, CHR 0x80], [CHR 0xE2, CHR 0x80, CHR 0x81],
      [CHR 0xE2, CHR 0x80, CHR 0x82], [CHR 0xE2, CHR 0x80, CHR 0x83],
      [CHR 0xE2, CHR 0x80, CHR 0x84], [CHR 0xE2, CHR 0x80, CHR 0x85],
      [CHR 0xE2, CHR 0x80, CHR 0x86], [CHR 0xE2, CHR 0x80, CHR 0x87],
      [CHR 0xE2, CHR 0x80, CHR 0x88], [CHR 0xE2, CHR 0x80, CHR 0x89],
      [CHR 0xE2, CHR 0x80, CHR 0x8A], [CHR 0xE2, CHR 0x80, CHR 0xA8],
      [CHR 0xE2, CHR 0x80, CHR 0xA9], [CHR 0xE2, CHR 0x80, CHR 0xAF],
      [CHR 0xE2, CHR 0x81, CHR 0x9F], [CHR 0xE3, CHR 0x80, CHR 0x80],
      [CHR 0xEF, CHR 0xBB, CHR 0xBF]]"

text \<open>\<open>strip ps s\<close> takes off the front of \<open>s\<close> every leading occurrence of one of
  the texts \<open>ps\<close>.\<close>

function strip :: "string list \<Rightarrow> string \<Rightarrow> string" where
  "strip ps s =
     (case find (\<lambda>p. p \<noteq> [] \<and> startsWith s p) ps of
        None \<Rightarrow> s
      | Some p \<Rightarrow> strip ps (drop (length p) s))"
  by pat_completeness auto
termination
proof (relation "measure (\<lambda>x. length (snd x))")
  show "wf (measure (\<lambda>x. length (snd x)))" by simp
next
  fix ps :: "string list" and s p :: string
  assume "find (\<lambda>p. p \<noteq> [] \<and> startsWith s p) ps = Some p"
  then have "p \<noteq> [] \<and> startsWith s p" by (auto simp: find_Some_iff)
  then have "0 < length p" "s \<noteq> []" by (auto simp: startsWith_def)
  then show "((ps, drop (length p) s), (ps, s)) \<in> measure (\<lambda>x. length (snd x))" by simp
qed

declare strip.simps [simp del]

definition trim :: "string \<Rightarrow> string" where
  "trim s = rev (strip (map rev whiteSpace) (rev (strip whiteSpace s)))"

fun join :: "string \<Rightarrow> string list \<Rightarrow> string" where
  "join sep [] = []"
| "join sep [x] = x"
| "join sep (x # y # ys) = x @ sep @ join sep (y # ys)"

fun js_replace :: "string \<Rightarrow> string \<Rightarrow> string \<Rightarrow> string" where
  "js_replace pat rep [] = (if pat = [] then rep else [])"
| "js_replace pat rep (c # cs) =
     (if startsWith (c # cs) pat then rep @ drop (length pat) (c # cs)
      else c # js_replace pat rep cs)"

section \<open>utils.ts\<close>

text \<open>
  \<^verbatim>\<open>redactSecrets(str, secrets = [])\<close>: one \<^verbatim>\<open>str.replace(secret, "{SECRET}")\<close>
  for each secret, in order.
\<close>

fun redactSecrets :: "string \<Rightarrow> string list \<Rightarrow> string" where
  "redactSecrets str [] = str"
| "redactSecrets str (secret # secrets) =
     redactSecrets (js_replace secret ''{SECRET}'' str) secrets"

definition displayCommand :: "string \<Rightarrow> string list \<Rightarrow> string list \<Rightarrow> string" where
  "displayCommand execPath args secretsToHide =
     redactSecrets (execPath @ '' '' @ join '' '' args) secretsToHide"

section \<open>executor.ts: the shell executor\<close>

text \<open>
  \<^verbatim>\<open>CommandOutput = Error | string\<close>. \<open>Error m\<close> is \<^verbatim>\<open>new Error(m)\<close>;
  \<open>OtherError n m\<close> is an error object made elsewhere (thrown by \<^verbatim>\<open>execFile\<close>, or
  a rejection of \<^verbatim>\<open>getFetchEndpoint\<close>), with its name and its message.
\<close>

datatype CommandOutput = Error string | OtherError string string | Str string

text \<open>
  What \<^verbatim>\<open>cp.execFile\<close> hands to its callback. \<^verbatim>\<open>error.code\<close> is the exit
  status of the process, or the name of the errno when the process could not be
  spawned; it is absent when the process was ended by a signal.
\<close>

datatype error_code = ExitStatus int | ErrnoName string

record ExecFileException =
  code :: "error_code option"
  stack :: "string option"
  message :: string

record callback_args =
  error :: "ExecFileException option"
  stdout :: string
  stderr :: string

text \<open>\<^verbatim>\<open>cp.execFile\<close> either throws at once (an error with its name and message) or
  calls back when the process has ended.\<close>

datatype execFile_result = Thrown string string | Called callback_args

record exec_opts =
  allowedErrorCodes :: "int list option"
  testAllowedErrorMessage :: "(string \<Rightarrow> bool) option"
  secretsToHide :: "string list option"

definition no_opts :: exec_opts where
  "no_opts = \<lparr>allowedErrorCodes = None, testAllowedErrorMessage = None, secretsToHide = None\<rparr>"

text \<open>The truth value JavaScript gives \<^verbatim>\<open>error.code\<close> in \<^verbatim>\<open>code && ...\<close>.\<close>

fun truthy :: "error_code option \<Rightarrow> bool" where
  "truthy None = False"
| "truthy (Some (ExitStatus n)) = (n \<noteq> 0)"
| "truthy (Some (ErrnoName s)) = (s \<noteq> [])"

text \<open>
  \<^verbatim>\<open>!allowedErrorCodes?.includes(code)\<close>: with no list given the optional call is
  \<^verbatim>\<open>undefined\<close> and its negation true; a list of numbers never includes a string.
\<close>

fun codeNotAllowed :: "int list option \<Rightarrow> error_code option \<Rightarrow> bool" where
  "codeNotAllowed None c = True"
| "codeNotAllowed (Some allowed) (Some (ExitStatus n)) = (n \<notin> set allowed)"
| "codeNotAllowed (Some allowed) c = True"

definition orEmpty :: "string list option \<Rightarrow> string list" where
  "orEmpty xs = (case xs of None \<Rightarrow> [] | Some ys \<Rightarrow> ys)"

text \<open>
  The executor returned by \<^verbatim>\<open>getShellExecutor\<close>, applied to a command. The first
  argument is what the operating system does with the command. The result is the
  lines handed to \<^verbatim>\<open>log\<close>, in order, and the value the promise resolves with.
\<close>

definition getShellExecutor ::
  "execFile_result \<Rightarrow> string \<Rightarrow> string list \<Rightarrow> exec_opts \<Rightarrow> string list \<times> CommandOutput" where
  "getShellExecutor os execPath args opts =
     (let commandDisplayed = displayCommand execPath args (orEmpty (secretsToHide opts));
          executing = ''Executing '' @ commandDisplayed
      in case os of
           Thrown n m \<Rightarrow> ([executing], OtherError n m)
         | Called cb \<Rightarrow>
             (let sanitizedStderr = redactSecrets (trim (stderr cb)) (orEmpty (secretsToHide opts));
                  isErrorMessageAllowed =
                    (case testAllowedErrorMessage opts of
                       None \<Rightarrow> False
                     | Some test \<Rightarrow> test sanitizedStderr);
                  sanitizedStdout = redactSecrets (trim (stdout cb)) (orEmpty (secretsToHide opts));
                  resolved =
                    (if sanitizedStdout \<noteq> []
                     then ([executing,
                            ''Output of '' @ commandDisplayed @ '':'' @ [CHR 0x0A] @ sanitizedStdout],
                           Str sanitizedStdout)
                     else ([executing], Str sanitizedStdout))
              in if isErrorMessageAllowed then resolved
                 else (case error cb of
                         Some e \<Rightarrow>
                           if truthy (code e) \<and> codeNotAllowed (allowedErrorCodes opts) (code e)
                           then ([executing],
                                 Error (redactSecrets
                                          (case stack e of Some s \<Rightarrow> s | None \<Rightarrow> message e)
                                          (orEmpty (secretsToHide opts))))
                           else resolved
                       | None \<Rightarrow>
                           if sanitizedStderr \<noteq> [] then ([executing], Error sanitizedStderr)
                           else resolved)))"

text \<open>
  The order of precedence as the specification words it: (a) a launch error whose exit
  code is not allowed, (b) a tolerated stderr text, (c) a non-empty stderr text,
  (d) the trimmed stdout. It is compared with \<open>getShellExecutor\<close> below.
\<close>

definition claimed_classification :: "callback_args \<Rightarrow> exec_opts \<Rightarrow> CommandOutput" where
  "claimed_classification cb opts =
     (let secrets = orEmpty (secretsToHide opts);
          sanitizedStderr = redactSecrets (trim (stderr cb)) secrets;
          sanitizedStdout = redactSecrets (trim (stdout cb)) secrets
      in if (case error cb of
               None \<Rightarrow> False
             | Some e \<Rightarrow> truthy (code e) \<and> codeNotAllowed (allowedErrorCodes opts) (code e))
         then Error (redactSecrets
                       (case error cb of
                          None \<Rightarrow> []
                        | Some e \<Rightarrow> (case stack e of Some s \<Rightarrow> s | None \<Rightarrow> message e))
                       secrets)
         else if (case testAllowedErrorMessage opts of
                    None \<Rightarrow> False
                  | Some test \<Rightarrow> test sanitizedStderr)
         then Str sanitizedStdout
         else if sanitizedStderr \<noteq> [] then Error sanitizedStderr
         else Str sanitizedStdout)"

text \<open>The parts of that order, named: the redacted, trimmed text of a stream; the
  predicate accepts the stderr text; the process produced a launch error whose code is
  set and not allowed, and the text of that error; the launch error has a code that is
  set (neither absent, nor zero, nor the empty text).\<close>

definition sanitized :: "string \<Rightarrow> exec_opts \<Rightarrow> string" where
  "sanitized s opts = redactSecrets (trim s) (orEmpty (secretsToHide opts))"

definition tolerated :: "callback_args \<Rightarrow> exec_opts \<Rightarrow> bool" where
  "tolerated cb opts =
     (case testAllowedErrorMessage opts of
        None \<Rightarrow> False
      | Some test \<Rightarrow> test (sanitized (stderr cb) opts))"

definition refused :: "callback_args \<Rightarrow> exec_opts \<Rightarrow> bool" where
  "refused cb opts =
     (case error cb of
        None \<Rightarrow> False
      | Some e \<Rightarrow> truthy (code e) \<and> codeNotAllowed (allowedErrorCodes opts) (code e))"

definition launchErrorText :: "callback_args \<Rightarrow> exec_opts \<Rightarrow> string" where
  "launchErrorText cb opts =
     redactSecrets
       (case error cb of
          None \<Rightarrow> []
        | Some e \<Rightarrow> (case stack e of Some s \<Rightarrow> s | None \<Rightarrow> message e))
       (orEmpty (secretsToHide opts))"

definition codeSet :: "callback_args \<Rightarrow> bool" where
  "codeSet cb = (case error cb of None \<Rightarrow> False | Some e \<Rightarrow> truthy (code e))"

section \<open>types.ts: tasks\<close>

record PrepareBranchParams =
  contributor :: string
  owner :: string
  repo :: string
  branch :: string
  repoPath :: string

text \<open>
  \<^verbatim>\<open>PullRequestTask = PullRequestParams & {...}\<close>. The fields \<^verbatim>\<open>owner\<close> and
  \<^verbatim>\<open>repo\<close> of \<^verbatim>\<open>PullRequestParams\<close> are written \<open>pr_owner\<close> and \<open>pr_repo\<close>,
  apart from those of \<open>PrepareBranchParams\<close>.
\<close>

record PullRequestTask =
  pr_owner :: string
  pr_repo :: string
  pull_number :: nat
  installationId :: nat
  requester :: string
  execPath :: string
  args :: "string list"
  env :: "(string \<times> string) list"
  prepareBranchParams :: PrepareBranchParams
  commentId :: nat
  version :: string

text \<open>
  Decimal rendering of a number inside a template literal. The numbers rendered are
  pull request numbers, list indices and GitLab ids; a JavaScript number renders as its
  plain decimal below \<open>10^21\<close>, the range \<open>show_nat\<close> is meant for.
\<close>

fun show_nat :: "nat \<Rightarrow> string" where
  "show_nat n =
     (if n < 10 then [''0123456789'' ! n]
      else show_nat (n div 10) @ [''0123456789'' ! (n mod 10)])"

declare show_nat.simps [simp del]

definition getPullRequestHandleId :: "PullRequestTask \<Rightarrow> string" where
  "getPullRequestHandleId t =
     ''owner: '' @ pr_owner t @ '', repo: '' @ pr_repo t @ '', pull: '' @ show_nat (pull_number t)"

section \<open>The task store\<close>

text \<open>
  The store maps a task id to the task stored under it. A task id is the reading of
  the clock at submission, \<^verbatim>\<open>new Date().toISOString()\<close>; it is modelled as the
  reading itself, in milliseconds, whose ISO rendering is injective and keeps the
  order. The stored value is the task data itself (the source stores its JSON text).
\<close>

type_synonym task_id = nat
type_synonym store = "(task_id \<times> PullRequestTask) list"

text \<open>Modelled from the spec: \<^verbatim>\<open>put(id, serializedTask)\<close> of the Task Store (src/db is
  not among the sources); a key holds one value.\<close>

definition db_put :: "task_id \<Rightarrow> PullRequestTask \<Rightarrow> store \<Rightarrow> store" where
  "db_put k v s = (k, v) # filter (\<lambda>kv. fst kv \<noteq> k) s"

text \<open>Modelled from the spec: \<^verbatim>\<open>del(id)\<close> of the Task Store.\<close>

definition db_del :: "task_id \<Rightarrow> store \<Rightarrow> store" where
  "db_del k s = filter (\<lambda>kv. fst kv \<noteq> k) s"

text \<open>Modelled from the spec: \<^verbatim>\<open>getSortedItems(db, {match: {version, isInverseMatch}})\<close>,
  the scan of the Task Store filtered by the version tag and sorted by id. An item is
  the pair \<^verbatim>\<open>{id, taskData}\<close>.\<close>

definition getSortedItems :: "store \<Rightarrow> string \<Rightarrow> bool \<Rightarrow> (task_id \<times> PullRequestTask) list" where
  "getSortedItems s v isInverseMatch =
     sort_key fst (filter (\<lambda>kv. if isInverseMatch then version (snd kv) \<noteq> v
                                else version (snd kv) = v) s)"

section \<open>executor.ts: the queue message\<close>

text \<open>\<^verbatim>\<open>Array.prototype.reduce\<close> with an initial value; the callback also gets the index.\<close>

definition js_reduce :: "('b \<Rightarrow> 'a \<Rightarrow> nat \<Rightarrow> 'b) \<Rightarrow> 'b \<Rightarrow> 'a list \<Rightarrow> 'b" where
  "js_reduce f init xs = foldl (\<lambda>acc xi. f acc (fst xi) (snd xi)) init (zip xs [0..<length xs])"

text \<open>
  The text the callback of \<^verbatim>\<open>items.reduce\<close> returns for the item at index \<open>i\<close>.
  \<open>json\<close> stands for \<^verbatim>\<open>JSON.stringify(value, null, 2)\<close>.
\<close>

definition queueItemDisplay ::
  "(task_id \<times> PullRequestTask \<Rightarrow> string) \<Rightarrow> task_id \<times> PullRequestTask \<Rightarrow> nat \<Rightarrow> string" where
  "queueItemDisplay json v i =
     [CHR 0x0A, CHR 0x0A] @ show_nat (i + 1) @ '':'' @ [CHR 0x0A, CHR 0x0A] @ ''```'' @ [CHR 0x0A]
     @ json v @ [CHR 0x0A] @ ''```'' @ [CHR 0x0A] @ ''  '' @ [CHR 0x0A]"

definition getQueueMessage ::
  "(task_id \<times> PullRequestTask \<Rightarrow> string) \<Rightarrow> store \<Rightarrow> string \<Rightarrow> string \<Rightarrow> string" where
  "getQueueMessage json s commandDisplay v =
     (let items = getSortedItems s v False
      in if items \<noteq> []
         then [CHR 0x0A] @ ''Queued '' @ commandDisplay @ [CHR 0x0A, CHR 0x0A]
              @ ''There are other items ahead of it in the queue: ''
              @ js_reduce (\<lambda>acc v i. queueItemDisplay json v i) [] items
         else ''Executing '' @ commandDisplay)"

section \<open>executor.ts: queue, up to its return\<close>

text \<open>
  The state \<^verbatim>\<open>queue\<close> works on: the store, the bodies handed to
  \<^verbatim>\<open>mutex.runExclusive\<close> in the order of the calls (task id, handle id, task data),
  and \<^verbatim>\<open>cancelHandles\<close>, which maps a handle id to the task whose \<^verbatim>\<open>terminate\<close>
  it holds.
\<close>

record app =
  db :: store
  mutexQueue :: "(task_id \<times> string \<times> PullRequestTask) list"
  cancelHandles :: "string \<rightharpoonup> task_id"

text \<open>
  \<^verbatim>\<open>queue\<close> from its call to its \<^verbatim>\<open>return message\<close>, when its scan and its
  \<^verbatim>\<open>db.put\<close> succeed; \<open>now\<close> is the reading of \<^verbatim>\<open>new Date()\<close>. The body it
  schedules is the machine of a later section.
\<close>

definition queue ::
  "(task_id \<times> PullRequestTask \<Rightarrow> string) \<Rightarrow> nat \<Rightarrow> PullRequestTask \<Rightarrow> string \<Rightarrow> app
     \<Rightarrow> string \<times> app" where
  "queue json now taskData handleId a =
     (let commandDisplay = displayCommand (execPath taskData) (args taskData) [];
          taskId = now;
          msg = getQueueMessage json (db a) commandDisplay (version taskData)
      in (msg,
          a\<lparr>db := db_put taskId taskData (db a),
            mutexQueue := mutexQueue a @ [(taskId, handleId, taskData)],
            cancelHandles := (cancelHandles a)(handleId \<mapsto> taskId)\<rparr>))"

section \<open>The startup reconciler\<close>

text \<open>
  What can go wrong in one pass of the loop of \<^verbatim>\<open>requeueUnterminated\<close>:
  \<^verbatim>\<open>await db.del(id)\<close> rejects and the task stays in the store; or a later
  \<^verbatim>\<open>await\<close> of the pass rejects (\<^verbatim>\<open>bot.auth\<close>, or the scan or the
  \<^verbatim>\<open>db.put\<close> inside \<^verbatim>\<open>queue\<close>), when the task is deleted and not stored again.
  Either way the rejection leaves the loop and \<^verbatim>\<open>requeueUnterminated\<close> rejects.
\<close>

datatype rejection = DelRejects | ResubmitRejects

text \<open>
  The loop of \<^verbatim>\<open>requeueUnterminated\<close> over the items of the scan. \<open>rejects n\<close> says
  whether and where pass \<open>n\<close> rejects; \<open>clock n\<close> is the reading of \<^verbatim>\<open>new Date()\<close>
  in pass \<open>n\<close>. The result says whether the loop ran to its end, and gives the state
  it left. The message \<^verbatim>\<open>queue\<close> returns is dropped, as in the source.
\<close>

fun requeue_items ::
  "(task_id \<times> PullRequestTask \<Rightarrow> string) \<Rightarrow> (nat \<Rightarrow> rejection option) \<Rightarrow> (nat \<Rightarrow> nat) \<Rightarrow> nat
     \<Rightarrow> (task_id \<times> PullRequestTask) list \<Rightarrow> app \<Rightarrow> bool \<times> app" where
  "requeue_items json rejects clock n [] a = (True, a)"
| "requeue_items json rejects clock n (item # items) a =
     (case rejects n of
        Some DelRejects \<Rightarrow> (False, a)
      | Some ResubmitRejects \<Rightarrow> (False, a\<lparr>db := db_del (fst item) (db a)\<rparr>)
      | None \<Rightarrow>
          requeue_items json rejects clock (Suc n) items
            (snd (queue json (clock n) (snd item) (getPullRequestHandleId (snd item))
                    (a\<lparr>db := db_del (fst item) (db a)\<rparr>))))"

text \<open>\<^verbatim>\<open>requeueUnterminated\<close>: the scan for the items whose version differs from
  \<open>v\<close>, which may reject (\<open>scanRejects\<close>) and then leaves everything as it was, and
  the loop over the items.\<close>

definition requeueUnterminated ::
  "(task_id \<times> PullRequestTask \<Rightarrow> string) \<Rightarrow> bool \<Rightarrow> (nat \<Rightarrow> rejection option) \<Rightarrow> (nat \<Rightarrow> nat)
     \<Rightarrow> string \<Rightarrow> app \<Rightarrow> bool \<times> app" where
  "requeueUnterminated json scanRejects rejects clock v a =
     (if scanRejects then (False, a)
      else requeue_items json rejects clock 0 (getSortedItems (db a) v True) a)"

section \<open>executor.ts: prepareBranch\<close>

text \<open>
  The asynchronous generator \<^verbatim>\<open>prepareBranch\<close> is suspended on one operation at
  a time. A \<open>gen_point\<close> names the operation it is suspended on, in the order of the
  source.
\<close>

datatype gen_point =
  Mkdir | FetchEndpoint | Clone | RevParse | CheckoutHead | RemoteRemove | RemoteAdd
  | Fetch | BranchDelete | CheckoutTrack

text \<open>
  The operation at a point: \<open>Yield\<close> for \<^verbatim>\<open>yield run(...)\<close>, whose result goes to
  the caller of \<^verbatim>\<open>next()\<close>; \<open>Await\<close> for \<^verbatim>\<open>await repoCmd(...)\<close>, whose result
  stays in the generator; \<open>AwaitFetchEndpoint\<close> for \<^verbatim>\<open>await getFetchEndpoint()\<close>.
\<close>

datatype gen_op =
  Yield string "string list" exec_opts
  | Await string "string list" exec_opts
  | AwaitFetchEndpoint

text \<open>\<^verbatim>\<open>repoCmd\<close> puts the token first among the secrets to hide.\<close>

definition repoCmd :: "string \<Rightarrow> exec_opts \<Rightarrow> exec_opts" where
  "repoCmd tok options = options\<lparr>secretsToHide := Some (tok # orEmpty (secretsToHide options))\<rparr>"

definition tolerating :: "(string \<Rightarrow> bool) \<Rightarrow> exec_opts" where
  "tolerating test = no_opts\<lparr>testAllowedErrorMessage := Some test\<rparr>"

fun prepareBranch_op ::
  "PrepareBranchParams \<Rightarrow> string \<Rightarrow> string \<Rightarrow> string \<Rightarrow> gen_point \<Rightarrow> gen_op" where
  "prepareBranch_op p tok u detachedHead Mkdir =
     Yield ''mkdir'' [''-p'', repoPath p] no_opts"
| "prepareBranch_op p tok u detachedHead FetchEndpoint = AwaitFetchEndpoint"
| "prepareBranch_op p tok u detachedHead Clone =
     Yield ''git'' [''clone'', ''--quiet'', u @ ''/'' @ owner p @ ''/'' @ repo p, repoPath p]
       (repoCmd tok (tolerating
          (\<lambda>err. endsWith err ''already exists and is not an empty directory.'')))"
| "prepareBranch_op p tok u detachedHead RevParse =
     Await ''git'' [''rev-parse'', ''HEAD''] (repoCmd tok no_opts)"
| "prepareBranch_op p tok u detachedHead CheckoutHead =
     Yield ''git'' [''checkout'', ''--quiet'', detachedHead]
       (repoCmd tok (tolerating (\<lambda>err. startsWith err ''HEAD is now at'')))"
| "prepareBranch_op p tok u detachedHead RemoteRemove =
     Yield ''git'' [''remote'', ''remove'', ''pr'']
       (repoCmd tok (tolerating (\<lambda>err. startsWith err ''error: No such remote:'')))"
| "prepareBranch_op p tok u detachedHead RemoteAdd =
     Yield ''git'' [''remote'', ''add'', ''pr'', u @ ''/'' @ contributor p @ ''/'' @ repo p @ ''.git'']
       (repoCmd tok no_opts)"
| "prepareBranch_op p tok u detachedHead Fetch =
     Yield ''git'' [''fetch'', ''--quiet'', ''pr'', branch p] (repoCmd tok no_opts)"
| "prepareBranch_op p tok u detachedHead BranchDelete =
     Yield ''git'' [''branch'', ''-D'', branch p]
       (repoCmd tok (tolerating (\<lambda>err. endsWith err ''not found.'')))"
| "prepareBranch_op p tok u detachedHead CheckoutTrack =
     Yield ''git'' [''checkout'', ''--quiet'', ''--track'', ''pr/'' @ branch p] (repoCmd tok no_opts)"

text \<open>The point after a point; after the last one the generator is done.\<close>

fun next_point :: "gen_point \<Rightarrow> gen_point option" where
  "next_point Mkdir = Some FetchEndpoint"
| "next_point FetchEndpoint = Some Clone"
| "next_point Clone = Some RevParse"
| "next_point RevParse = Some CheckoutHead"
| "next_point CheckoutHead = Some RemoteRemove"
| "next_point RemoteRemove = Some RemoteAdd"
| "next_point RemoteAdd = Some Fetch"
| "next_point Fetch = Some BranchDelete"
| "next_point BranchDelete = Some CheckoutTrack"
| "next_point CheckoutTrack = None"

section \<open>executor.ts: the body of a queued task\<close>

text \<open>
  What the environment does: \<open>execFile n\<close> is what the operating system does with
  the \<open>n\<close>-th process the task starts, \<open>fetchEndpoint\<close> what
  \<^verbatim>\<open>getFetchEndpoint(installationId)\<close> settles with (the name and message of the
  error it rejects with, or token and url).
\<close>

record world =
  execFile :: "nat \<Rightarrow> string \<Rightarrow> string list \<Rightarrow> execFile_result"
  fetchEndpoint :: "string \<times> string + string \<times> string"

text \<open>
  Where the task stands: waiting for \<^verbatim>\<open>mutex.runExclusive\<close>; in the body, awaiting
  the scan for the log line; in the preparation, awaiting the operation of a point;
  awaiting the requested command; returned from the body with \<^verbatim>\<open>afterExecution\<close>
  pending; inside \<^verbatim>\<open>afterExecution\<close> awaiting \<^verbatim>\<open>terminate()\<close>, with
  \<^verbatim>\<open>wasAlive\<close> and the result; finished.
\<close>

datatype body_point =
  Waiting | Logging | Prepare gen_point | Command | Returned CommandOutput
  | Terminating bool CommandOutput | Finished

text \<open>
  The variables of one call of \<^verbatim>\<open>queue\<close> and of its generator: \<open>child\<close> is the
  process \<^verbatim>\<open>onChild\<close> registered, by its number; \<open>launched\<close> the commands started
  so far; \<open>killed\<close> the processes \<^verbatim>\<open>child.kill()\<close> was called on; \<open>returned\<close> the
  value the body returned; \<open>delivered\<close> the calls of \<^verbatim>\<open>onResult\<close>.
\<close>

record task_run =
  store_of :: store
  isAlive :: bool
  child :: "nat option"
  point :: body_point
  token :: string
  url :: string
  detachedHead :: string
  launched :: "(string \<times> string list) list"
  killed :: "nat list"
  returned :: "CommandOutput option"
  delivered :: "CommandOutput list"

definition start :: "store \<Rightarrow> task_run" where
  "start s = \<lparr>store_of = s, isAlive = True, child = None, point = Waiting, token = [], url = [],
     detachedHead = [], launched = [], killed = [], returned = None, delivered = []\<rparr>"

definition cancelledMessage :: string where
  "cancelledMessage = ''Command was cancelled''"

text \<open>\<^verbatim>\<open>${result}\<close> in a template literal: an \<open>Error\<close> is rendered by its
  \<^verbatim>\<open>toString\<close>.\<close>

fun toString :: "CommandOutput \<Rightarrow> string" where
  "toString (Str s) = s"
| "toString (Error m) = (if m = [] then ''Error'' else ''Error: '' @ m)"
| "toString (OtherError n m) = (if m = [] then n else if n = [] then m else n @ '': '' @ m)"

definition resultsMessage :: "string \<Rightarrow> CommandOutput \<Rightarrow> string" where
  "resultsMessage commandDisplay result =
     [CHR 0x0A] @ ''Results are ready for '' @ commandDisplay @ [CHR 0x0A, CHR 0x0A]
     @ ''<details>'' @ [CHR 0x0A] @ ''<summary>Output</summary>'' @ [CHR 0x0A, CHR 0x0A]
     @ ''```'' @ [CHR 0x0A] @ toString result @ [CHR 0x0A] @ ''```'' @ [CHR 0x0A, CHR 0x0A]
     @ ''</details>'' @ [CHR 0x0A]"

text \<open>\<^verbatim>\<open>execFile\<close> starts a process and \<^verbatim>\<open>onChild\<close> registers it.\<close>

definition launch :: "string \<Rightarrow> string list \<Rightarrow> task_run \<Rightarrow> task_run" where
  "launch ep as c = c\<lparr>child := Some (length (launched c)), launched := launched c @ [(ep, as)]\<rparr>"

text \<open>The result of the process the task is awaiting: the last one it started.\<close>

definition awaited :: "world \<Rightarrow> string \<Rightarrow> string list \<Rightarrow> exec_opts \<Rightarrow> task_run \<Rightarrow> CommandOutput" where
  "awaited w ep as opts c =
     snd (getShellExecutor (execFile w (length (launched c) - 1) ep as) ep as opts)"

definition return_with :: "CommandOutput \<Rightarrow> task_run \<Rightarrow> task_run" where
  "return_with r c = c\<lparr>point := Returned r, returned := Some r\<rparr>"

text \<open>The generator runs up to the operation of point \<open>g\<close> and is suspended there.\<close>

definition suspend_at :: "PullRequestTask \<Rightarrow> gen_point \<Rightarrow> task_run \<Rightarrow> task_run" where
  "suspend_at t g c =
     (case prepareBranch_op (prepareBranchParams t) (token c) (url c) (detachedHead c) g of
        Yield ep as opts \<Rightarrow> (launch ep as c)\<lparr>point := Prepare g\<rparr>
      | Await ep as opts \<Rightarrow> (launch ep as c)\<lparr>point := Prepare g\<rparr>
      | AwaitFetchEndpoint \<Rightarrow> c\<lparr>point := Prepare g\<rparr>)"

text \<open>
  After the loop over the generator (left by \<^verbatim>\<open>break\<close> on \<^verbatim>\<open>o.done\<close>, or by its
  condition): \<^verbatim>\<open>if (!isAlive) return cancelledMessage\<close>, then the requested command
  is started.
\<close>

definition after_loop :: "PullRequestTask \<Rightarrow> task_run \<Rightarrow> task_run" where
  "after_loop t c =
     (if \<not> isAlive c then return_with (Str cancelledMessage) c
      else (launch (execPath t) (args t) c)\<lparr>point := Command\<rparr>)"

text \<open>
  The generator is resumed after point \<open>g\<close>: it runs to its next operation, or it is
  done and the caller's loop is left by \<^verbatim>\<open>break\<close>.
\<close>

definition resume_after :: "PullRequestTask \<Rightarrow> gen_point \<Rightarrow> task_run \<Rightarrow> task_run" where
  "resume_after t g c =
     (case next_point g of Some g' \<Rightarrow> suspend_at t g' c | None \<Rightarrow> after_loop t c)"

text \<open>
  The operation of point \<open>g\<close> has settled. A yielded result reaches the loop of
  \<^verbatim>\<open>queue\<close>: \<^verbatim>\<open>child = undefined\<close>, a result that is no string is returned, and
  \<^verbatim>\<open>while (isAlive)\<close> decides whether \<^verbatim>\<open>prepare.next()\<close> is called again. An
  awaited result stays in the generator: on an error it executes \<^verbatim>\<open>return out\<close>,
  which the loop sees as \<^verbatim>\<open>o.done\<close>. A rejected \<^verbatim>\<open>getFetchEndpoint\<close> is thrown
  out of \<^verbatim>\<open>prepare.next()\<close> and returned by the \<^verbatim>\<open>catch\<close> of the body.
\<close>

definition settle :: "world \<Rightarrow> PullRequestTask \<Rightarrow> gen_point \<Rightarrow> task_run \<Rightarrow> task_run" where
  "settle w t g c =
     (case prepareBranch_op (prepareBranchParams t) (token c) (url c) (detachedHead c) g of
        Yield ep as opts \<Rightarrow>
          (case awaited w ep as opts c of
             Str s \<Rightarrow>
               if isAlive c then resume_after t g (c\<lparr>child := None\<rparr>)
               else after_loop t (c\<lparr>child := None\<rparr>)
           | out \<Rightarrow> return_with out (c\<lparr>child := None\<rparr>))
      | Await ep as opts \<Rightarrow>
          (case awaited w ep as opts c of
             Str s \<Rightarrow> resume_after t g (c\<lparr>detachedHead := trim s\<rparr>)
           | out \<Rightarrow> after_loop t c)
      | AwaitFetchEndpoint \<Rightarrow>
          (case fetchEndpoint w of
             Inl e \<Rightarrow> return_with (OtherError (fst e) (snd e)) c
           | Inr tu \<Rightarrow> resume_after t g (c\<lparr>token := fst tu, url := snd tu\<rparr>)))"

text \<open>
  \<^verbatim>\<open>terminate\<close>: the flag, \<^verbatim>\<open>child.kill()\<close> on a registered process, and
  \<^verbatim>\<open>db.del(taskId)\<close>. Store operations are taken to succeed.
\<close>

definition terminate :: "task_id \<Rightarrow> task_run \<Rightarrow> task_run" where
  "terminate taskId c =
     c\<lparr>isAlive := False,
       killed := (case child c of Some n \<Rightarrow> killed c @ [n] | None \<Rightarrow> killed c),
       store_of := db_del taskId (store_of c)\<rparr>"

text \<open>
  One turn of the task: the operation it awaits has settled and the task runs to its
  next \<^verbatim>\<open>await\<close>.
\<close>

definition tick :: "world \<Rightarrow> task_id \<Rightarrow> PullRequestTask \<Rightarrow> task_run \<Rightarrow> task_run" where
  "tick w taskId t c =
     (case point c of
        Waiting \<Rightarrow> c\<lparr>point := Logging\<rparr>
      | Logging \<Rightarrow>
          if \<not> isAlive c then return_with (Str cancelledMessage) c
          else suspend_at t Mkdir c
      | Prepare g \<Rightarrow> settle w t g c
      | Command \<Rightarrow>
          (let result = awaited w (execPath t) (args t) no_opts c
           in return_with
                (if isAlive c
                 then Str (resultsMessage (displayCommand (execPath t) (args t) []) result)
                 else Str cancelledMessage) c)
      | Returned r \<Rightarrow> (terminate taskId c)\<lparr>point := Terminating (isAlive c) r\<rparr>
      | Terminating wasAlive r \<Rightarrow>
          c\<lparr>point := Finished,
            delivered := (if wasAlive then delivered c @ [r] else delivered c)\<rparr>
      | Finished \<Rightarrow> c)"

text \<open>
  What can happen to a queued task: its own next turn, or a call of the
  \<^verbatim>\<open>cancel\<close> stored in \<^verbatim>\<open>cancelHandles\<close>, which is \<^verbatim>\<open>terminate\<close>. A schedule
  is a list of such events, in any order.
\<close>

datatype event = Tick | Cancel

fun step :: "world \<Rightarrow> task_id \<Rightarrow> PullRequestTask \<Rightarrow> task_run \<Rightarrow> event \<Rightarrow> task_run" where
  "step w taskId t c Tick = tick w taskId t c"
| "step w taskId t c Cancel = terminate taskId c"

definition exec :: "world \<Rightarrow> task_id \<Rightarrow> PullRequestTask \<Rightarrow> event list \<Rightarrow> task_run \<Rightarrow> task_run" where
  "exec w taskId t evs c = foldl (step w taskId t) c evs"

section \<open>The remote pipeline adapter\<close>

text \<open>
  \<^verbatim>\<open>TaskGitlabPipeline\<close> is \<^verbatim>\<open>{id, projectId, webUrl}\<close>; the field \<^verbatim>\<open>id\<close> is
  written \<open>pipelineId\<close>. Of \<^verbatim>\<open>ctx.gitlab\<close> the adapter reads the domain and the
  access token; of a task, \<^verbatim>\<open>task.gitlab.pipeline\<close>.
\<close>

record TaskGitlabPipeline =
  pipelineId :: nat
  projectId :: nat
  webUrl :: string

record gitlab_ctx =
  domain :: string
  accessToken :: string

record Task =
  gitlab_pipeline :: "TaskGitlabPipeline option"

text \<open>
  A request is its method, its URL and its \<^verbatim>\<open>PRIVATE-TOKEN\<close> header. The remote
  either makes \<^verbatim>\<open>fetch\<close> (or the reading of the body) reject, or replies with
  \<^verbatim>\<open>response.ok\<close>, the text of the body and the \<^verbatim>\<open>status\<close> field of its JSON,
  if it has one. The first argument of a \<open>remote\<close> counts the requests of one
  operation.
\<close>

datatype http_method = GET | POST

datatype reply = Rejects string | Replies bool string "string option"

type_synonym remote = "nat \<Rightarrow> http_method \<Rightarrow> string \<Rightarrow> string \<Rightarrow> reply"

text \<open>How a promise ends; \<open>Pending\<close> when it has not settled within the polls looked at.\<close>

datatype 'a settled = Rejected string | Resolved 'a | Pending

text \<open>\<^verbatim>\<open>cancelGitlabPipeline\<close> resolves with \<^verbatim>\<open>undefined\<close> (\<open>None\<close>) or an Error.\<close>

definition cancelGitlabPipeline ::
  "remote \<Rightarrow> gitlab_ctx \<Rightarrow> TaskGitlabPipeline \<Rightarrow> string option settled" where
  "cancelGitlabPipeline fetch g p =
     (case fetch 0 POST
             (''https://'' @ domain g @ ''/api/v4/projects/'' @ show_nat (projectId p)
              @ ''/pipeline/'' @ show_nat (pipelineId p) @ ''/cancel'')
             (accessToken g) of
        Rejects e \<Rightarrow> Rejected e
      | Replies ok body st \<Rightarrow> if ok then Resolved None else Resolved (Some body))"

definition isTerminalStatus :: "string option \<Rightarrow> bool" where
  "isTerminalStatus st =
     (st = Some ''success'' \<or> st = Some ''skipped'' \<or> st = Some ''canceled'' \<or> st = Some ''failed'')"

text \<open>
  \<^verbatim>\<open>waitUntilFinished\<close>: the race of the \<^verbatim>\<open>finished\<close> event against
  \<^verbatim>\<open>pollPipelineCompletion\<close>. \<open>finishedAfter = Some k\<close> says that the event fires
  when \<open>k\<close> polls have been answered and before the next answer; \<open>None\<close> that it
  never fires. \<open>k\<close> counts the polls answered so far; each later poll is set off by
  \<^verbatim>\<open>setTimeout(..., 32768)\<close>. The first argument bounds the polls looked at.

  On a terminal status the source executes \<^verbatim>\<open>resolve(status)\<close>. No \<^verbatim>\<open>status\<close> is
  declared in the module (the field read is bound to \<^verbatim>\<open>pipelineStatus\<close>), so the
  name is looked up in the global object: \<open>globalStatus\<close> is its value there, \<open>None\<close>
  when the global object has none, as in Node.js, where the lookup throws a
  ReferenceError that the surrounding \<^verbatim>\<open>catch\<close> turns into a rejection.
\<close>

fun waitUntilFinished ::
  "nat \<Rightarrow> remote \<Rightarrow> string option \<Rightarrow> gitlab_ctx \<Rightarrow> TaskGitlabPipeline \<Rightarrow> nat option \<Rightarrow> nat
     \<Rightarrow> string settled" where
  "waitUntilFinished 0 fetch globalStatus g p finishedAfter k = Pending"
| "waitUntilFinished (Suc fuel) fetch globalStatus g p finishedAfter k =
     (if finishedAfter = Some k then Resolved ''finished''
      else case fetch k GET
                  (''https://'' @ domain g @ ''/api/v4/projects/'' @ show_nat (projectId p)
                   @ ''/pipeline/'' @ show_nat (pipelineId p))
                  (accessToken g) of
             Rejects e \<Rightarrow> Rejected e
           | Replies ok body pipelineStatus \<Rightarrow>
               if isTerminalStatus pipelineStatus
               then (case globalStatus of
                       None \<Rightarrow> Rejected ''ReferenceError: status is not defined''
                     | Some v \<Rightarrow> Resolved v)
               else waitUntilFinished fuel fetch globalStatus g p finishedAfter (Suc k))"

text \<open>The live handle: the pipeline's fields and the two operations, closed over the
  context and the pipeline.\<close>

record live_context = TaskGitlabPipeline +
  h_terminate :: "remote \<Rightarrow> string option settled"
  h_waitUntilFinished :: "nat \<Rightarrow> remote \<Rightarrow> string option \<Rightarrow> nat option \<Rightarrow> string settled"

definition getLiveTaskGitlabContext :: "gitlab_ctx \<Rightarrow> TaskGitlabPipeline \<Rightarrow> live_context" where
  "getLiveTaskGitlabContext g p =
     \<lparr>pipelineId = pipelineId p, projectId = projectId p, webUrl = webUrl p,
      h_terminate = (\<lambda>fetch. cancelGitlabPipeline fetch g p),
      h_waitUntilFinished =
        (\<lambda>fuel fetch globalStatus finishedAfter.
           waitUntilFinished fuel fetch globalStatus g p finishedAfter 0)\<rparr>"

text \<open>\<^verbatim>\<open>restoreTaskGitlabContext\<close> resolves with \<^verbatim>\<open>undefined\<close>, \<^verbatim>\<open>null\<close> or a
  live handle.\<close>

datatype restored = Undefined | Null | Live live_context

definition restoreTaskGitlabContext :: "remote \<Rightarrow> gitlab_ctx \<Rightarrow> Task \<Rightarrow> restored settled" where
  "restoreTaskGitlabContext fetch g task =
     (case gitlab_pipeline task of
        None \<Rightarrow> Resolved Undefined
      | Some p \<Rightarrow>
          (case fetch 0 POST
                  (''https://'' @ domain g @ ''/api/v4/projects/'' @ show_nat (projectId p)
                   @ ''/pipeline/'' @ show_nat (pipelineId p))
                  (accessToken g) of
             Rejects e \<Rightarrow> Rejected e
           | Replies ok body pipelineStatus \<Rightarrow>
               if pipelineStatus = Some ''canceled'' \<or> pipelineStatus = Some ''failed''
               then Resolved Null
               else Resolved (Live (getLiveTaskGitlabContext g p))))"

section \<open>Invariants of a task's run\<close>

text \<open>An upper bound on the turns a task still needs, by where it stands.\<close>

fun gen_rank :: "gen_point \<Rightarrow> nat" where
  "gen_rank Mkdir = 10"
| "gen_rank FetchEndpoint = 9"
| "gen_rank Clone = 8"
| "gen_rank RevParse = 7"
| "gen_rank CheckoutHead = 6"
| "gen_rank RemoteRemove = 5"
| "gen_rank RemoteAdd = 4"
| "gen_rank Fetch = 3"
| "gen_rank BranchDelete = 2"
| "gen_rank CheckoutTrack = 1"

fun remaining :: "body_point \<Rightarrow> nat" where
  "remaining Waiting = 15"
| "remaining Logging = 14"
| "remaining (Prepare g) = 3 + gen_rank g"
| "remaining Command = 3"
| "remaining (Returned r) = 2"
| "remaining (Terminating w r) = 1"
| "remaining Finished = 0"

text \<open>The task has not yet entered \<^verbatim>\<open>afterExecution\<close>.\<close>

fun in_body :: "body_point \<Rightarrow> bool" where
  "in_body (Terminating w r) = False"
| "in_body Finished = False"
| "in_body p = True"

text \<open>
  \<open>moved n c c'\<close>: a turn inside the body took \<open>c\<close> to \<open>c'\<close>. It leaves the flag, the
  store and the deliveries alone, ends in the preparation, at the command or at a
  return whose value is recorded, and fewer than \<open>n\<close> turns remain.
\<close>

definition moved :: "nat \<Rightarrow> task_run \<Rightarrow> task_run \<Rightarrow> bool" where
  "moved n c c' =
     (delivered c' = delivered c \<and> isAlive c' = isAlive c \<and> store_of c' = store_of c
      \<and> remaining (point c') < n
      \<and> (case point c' of
            Prepare g \<Rightarrow> returned c' = returned c
          | Command \<Rightarrow> returned c' = returned c
          | Returned r \<Rightarrow> returned c' = Some r
          | _ \<Rightarrow> False))"

text \<open>Nothing is delivered before the task has finished, and then at most the value
  the body returned.\<close>

definition once :: "task_run \<Rightarrow> bool" where
  "once c =
     (case point c of
        Returned r \<Rightarrow> returned c = Some r \<and> delivered c = []
      | Terminating w r \<Rightarrow> returned c = Some r \<and> delivered c = []
      | Finished \<Rightarrow> delivered c = [] \<or> map Some (delivered c) = [returned c]
      | _ \<Rightarrow> delivered c = [])"

text \<open>No \<^verbatim>\<open>terminate\<close> from outside has touched the task.\<close>

definition undisturbed :: "task_run \<Rightarrow> bool" where
  "undisturbed c =
     (case point c of
        Terminating w r \<Rightarrow> w
      | Finished \<Rightarrow> delivered c \<noteq> []
      | _ \<Rightarrow> isAlive c)"

text \<open>The task was cancelled before \<^verbatim>\<open>afterExecution\<close> read the flag.\<close>

definition suppressed :: "task_run \<Rightarrow> bool" where
  "suppressed c =
     (\<not> isAlive c \<and> delivered c = [] \<and> (case point c of Terminating w r \<Rightarrow> \<not> w | _ \<Rightarrow> True))"

section \<open>Concrete inputs\<close>

definition example_task :: PullRequestTask where
  "example_task =
     \<lparr>pr_owner = ''o'', pr_repo = ''r'', pull_number = 7, installationId = 1,
      requester = ''alice'', execPath = ''echo'', args = [''hi''], env = [],
      prepareBranchParams =
        \<lparr>contributor = ''c'', owner = ''o'', repo = ''r'', branch = ''b'', repoPath = ''/tmp/r''\<rparr>,
      commentId = 3, version = ''v1''\<rparr>"

text \<open>Every process prints \<^verbatim>\<open>ok\<close> and succeeds, but \<^verbatim>\<open>git rev-parse HEAD\<close> fails
  with exit status 128.\<close>

definition revparse_fails :: world where
  "revparse_fails =
     \<lparr>execFile = (\<lambda>n ep as.
        if as = [''rev-parse'', ''HEAD'']
        then Called \<lparr>error = Some \<lparr>code = Some (ExitStatus 128), stack = None,
                                   message = ''Command failed: git rev-parse HEAD''\<rparr>,
                     stdout = [], stderr = ''fatal: not a git repository''\<rparr>
        else Called \<lparr>error = None, stdout = ''ok'', stderr = []\<rparr>),
      fetchEndpoint = Inr (''tok'', ''https://github.com'')\<rparr>"

text \<open>Every process prints \<^verbatim>\<open>ok\<close> and succeeds.\<close>

definition all_succeed :: world where
  "all_succeed =
     \<lparr>execFile = (\<lambda>n ep as. Called \<lparr>error = None, stdout = ''ok'', stderr = []\<rparr>),
      fetchEndpoint = Inr (''tok'', ''https://github.com'')\<rparr>"

text \<open>Two stored tasks of the run version \<^verbatim>\<open>v1\<close>, and a rendering of an item that
  shows the requester.\<close>

definition two_peers :: store where
  "two_peers = [(1, example_task\<lparr>requester := ''bob''\<rparr>), (2, example_task\<lparr>requester := ''carol''\<rparr>)]"

definition show_requester :: "task_id \<times> PullRequestTask \<Rightarrow> string" where
  "show_requester kv = requester (snd kv)"

text \<open>A remote whose pipeline is \<^verbatim>\<open>running\<close> at the first two polls and
  \<^verbatim>\<open>success\<close> from the third on.\<close>

definition running_twice :: remote where
  "running_twice = (\<lambda>k m u tok. Replies True [] (Some (if k < 2 then ''running'' else ''success'')))"

definition example_gitlab :: gitlab_ctx where
  "example_gitlab = \<lparr>domain = ''gitlab.example'', accessToken = ''t''\<rparr>"

definition example_pipeline :: TaskGitlabPipeline where
  "example_pipeline = \<lparr>pipelineId = 1, projectId = 2, webUrl = ''https://gitlab.example/p/1''\<rparr>"

text \<open>A store that holds one task of an earlier run, \<^verbatim>\<open>v0\<close>, at the boot of the
  run \<^verbatim>\<open>v1\<close>; nothing has been handed to the mutex yet.\<close>

definition stale_task :: PullRequestTask where
  "stale_task = example_task\<lparr>version := ''v0''\<rparr>"


text \<open>A store that holds two tasks of the earlier run \<^verbatim>\<open>v0\<close>, for the pull requests
  7 and 8.\<close>

definition two_stale :: app where
  "two_stale =
     \<lparr>db = [(1, stale_task), (2, stale_task\<lparr>pull_number := 8\<rparr>)], mutexQueue = [],
      cancelHandles = Map.empty\<rparr>"

text \<open>No pass of the reconciler's loop rejects.\<close>

definition no_rejection :: "nat \<Rightarrow> rejection option" where
  "no_rejection = (\<lambda>n. None)"

text \<open>A remote that answers the status of pipeline 1 of project 2 at
  \<^verbatim>\<open>gitlab.example\<close>, asked for by POST with the token \<^verbatim>\<open>t\<close>, and the cancelling
  of that pipeline; every other request is rejected.\<close>

definition pipeline_1_is :: "string \<Rightarrow> remote" where
  "pipeline_1_is st =
     (\<lambda>k m u tok.
        if m = POST \<and> u = ''https://gitlab.example/api/v4/projects/2/pipeline/1'' \<and> tok = ''t''
        then Replies True [] (Some st)
        else if m = POST \<and> u = ''https://gitlab.example/api/v4/projects/2/pipeline/1/cancel''
                \<and> tok = ''t''
        then Replies True [] None
        else Rejects ''no such request'')"

section \<open>The shell executor: classification and redaction\<close>

text \<open>When \<^verbatim>\<open>execFile\<close> itself throws, the executor resolves with what it threw.\<close>

lemma getShellExecutor_thrown:
  "snd (getShellExecutor (Thrown n m) ep as opts) = OtherError n m"
  by (simp add: getShellExecutor_def)

text \<open>
  C4, as amended. The shell executor classifies the result of a process in this order
  of precedence: (a) if the allowed-error predicate accepts the captured stderr text,
  the result is success (the trimmed stdout), whatever the launch error; (b) otherwise,
  if the process produced a launch error and its exit code is not in the allowed set,
  the result is that error; (c) otherwise, if stderr is non-empty, the result is an error
  carrying the stderr text; (d) otherwise the result is the trimmed stdout. This is
  stated for every invocation but those in which the process produced a launch error
  whose code is unset (or zero), or whose code is allowed while stderr is non-empty, and
  the predicate does not accept the stderr text: of these nothing is stated.
\<close>

theorem getShellExecutor_classification:
  assumes "error cb \<noteq> None \<Longrightarrow> \<not> tolerated cb opts \<Longrightarrow>
             refused cb opts \<or> (codeSet cb \<and> sanitized (stderr cb) opts = [])"
  shows "snd (getShellExecutor (Called cb) ep as opts) =
           (if tolerated cb opts then Str (sanitized (stdout cb) opts)
            else if refused cb opts then Error (launchErrorText cb opts)
            else if sanitized (stderr cb) opts \<noteq> [] then Error (sanitized (stderr cb) opts)
            else Str (sanitized (stdout cb) opts))"
proof (cases "tolerated cb opts")
  case True
  then show ?thesis
    by (auto simp: getShellExecutor_def Let_def tolerated_def sanitized_def split: option.splits)
next
  case False
  note not_tolerated = this
  show ?thesis
  proof (cases "error cb")
    case None
    then show ?thesis
      using not_tolerated
      by (auto simp: getShellExecutor_def Let_def tolerated_def refused_def sanitized_def
          split: option.splits)
  next
    case (Some e)
    then have "refused cb opts \<or> (codeSet cb \<and> sanitized (stderr cb) opts = [])"
      using assms not_tolerated by simp
    then show ?thesis
      using Some not_tolerated
      by (auto simp: getShellExecutor_def Let_def tolerated_def refused_def sanitized_def
          launchErrorText_def codeSet_def split: option.splits)
  qed
qed

text \<open>The witness: \<^verbatim>\<open>git status\<close> ends with exit status 2 where only 1 is allowed,
  with a warning on stderr and no predicate: the result is the launch error.\<close>

theorem getShellExecutor_classification_witness:
  "error \<lparr>error = Some \<lparr>code = Some (ExitStatus 2), stack = None, message = ''Command failed''\<rparr>,
           stdout = ''out'', stderr = ''warning''\<rparr> \<noteq> None
   \<and> \<not> tolerated
          \<lparr>error = Some \<lparr>code = Some (ExitStatus 2), stack = None, message = ''Command failed''\<rparr>,
           stdout = ''out'', stderr = ''warning''\<rparr>
          \<lparr>allowedErrorCodes = Some [1], testAllowedErrorMessage = None, secretsToHide = None\<rparr>
   \<and> refused
        \<lparr>error = Some \<lparr>code = Some (ExitStatus 2), stack = None, message = ''Command failed''\<rparr>,
         stdout = ''out'', stderr = ''warning''\<rparr>
        \<lparr>allowedErrorCodes = Some [1], testAllowedErrorMessage = None, secretsToHide = None\<rparr>
   \<and> snd (getShellExecutor
            (Called \<lparr>error = Some \<lparr>code = Some (ExitStatus 2), stack = None,
                                   message = ''Command failed''\<rparr>,
                     stdout = ''out'', stderr = ''warning''\<rparr>)
            ''git'' [''status'']
            \<lparr>allowedErrorCodes = Some [1], testAllowedErrorMessage = None, secretsToHide = None\<rparr>)
       = Error ''Command failed''"
proof -
  let ?cb = "\<lparr>error = Some \<lparr>code = Some (ExitStatus 2), stack = None, message = ''Command failed''\<rparr>,
              stdout = ''out'', stderr = ''warning''\<rparr>"
  let ?opts = "\<lparr>allowedErrorCodes = Some [1], testAllowedErrorMessage = None, secretsToHide = None\<rparr>"
  have r: "refused ?cb ?opts" by (simp add: refused_def)
  have t: "\<not> tolerated ?cb ?opts" by (simp add: tolerated_def)
  have l: "launchErrorText ?cb ?opts = ''Command failed''"
    by (simp add: launchErrorText_def orEmpty_def)
  show ?thesis
    using r t l getShellExecutor_classification [of ?cb ?opts "''git''" "[''status'']"]
    by simp
qed

text \<open>
  C4 as the specification states it fails: \<^verbatim>\<open>git checkout\<close> ends with exit status
  1, which is not allowed, and a stderr text that the predicate of the step accepts.
  By (a) the result would be the error; the executor resolves with the stdout.
\<close>

theorem getShellExecutor_classification_counterexample:
  "snd (getShellExecutor
          (Called \<lparr>error = Some \<lparr>code = Some (ExitStatus 1), stack = None,
                                 message = ''Command failed''\<rparr>,
                   stdout = ''out'', stderr = ''HEAD is now at 1a2b3c''\<rparr>)
          ''git'' [''checkout'']
          (tolerating (\<lambda>err. startsWith err ''HEAD is now at'')))
     = Str ''out''
   \<and> claimed_classification
        \<lparr>error = Some \<lparr>code = Some (ExitStatus 1), stack = None, message = ''Command failed''\<rparr>,
         stdout = ''out'', stderr = ''HEAD is now at 1a2b3c''\<rparr>
        (tolerating (\<lambda>err. startsWith err ''HEAD is now at''))
     = Error ''Command failed''"
  by code_simp

text \<open>
  C5 fails on the code: \<^verbatim>\<open>str.replace(secret, "{SECRET}")\<close> replaces the first
  occurrence only. With the secret \<^verbatim>\<open>s3cr3t\<close> and a stderr text that holds it twice,
  the error the executor resolves with still shows the second occurrence.
\<close>

theorem redactSecrets_second_occurrence:
  "snd (getShellExecutor
          (Called \<lparr>error = None, stdout = ''ok'', stderr = ''bad s3cr3t, s3cr3t''\<rparr>)
          ''git'' [''push'']
          \<lparr>allowedErrorCodes = None, testAllowedErrorMessage = None,
           secretsToHide = Some [''s3cr3t'']\<rparr>)
     = Error ''bad {SECRET}, s3cr3t''"
  by code_simp

section \<open>The preparation and the requested command\<close>

text \<open>A yielded result that is no string is returned by the body, and no process is
  started.\<close>

lemma yielded_error_is_returned:
  assumes "prepareBranch_op (prepareBranchParams t) (token c) (url c) (detachedHead c) g
             = Yield ep as opts"
    and "\<forall>s. awaited w ep as opts c \<noteq> Str s"
  shows "point (settle w t g c) = Returned (awaited w ep as opts c)
       \<and> launched (settle w t g c) = launched c"
  using assms by (simp add: settle_def return_with_def split: CommandOutput.splits)

text \<open>An awaited result that is no string ends the generator, and the loop of the body
  goes on to the requested command.\<close>

lemma awaited_error_starts_command:
  assumes "prepareBranch_op (prepareBranchParams t) (token c) (url c) (detachedHead c) g
             = Await ep as opts"
    and "\<forall>s. awaited w ep as opts c \<noteq> Str s"
    and "isAlive c"
  shows "point (settle w t g c) = Command
       \<and> launched (settle w t g c) = launched c @ [(execPath t, args t)]"
  using assms by (simp add: settle_def after_loop_def launch_def split: CommandOutput.splits)

text \<open>
  C3 fails on the code at step 3. \<^verbatim>\<open>git rev-parse HEAD\<close> ends with exit status 128
  and the generator executes \<^verbatim>\<open>return out\<close>; the loop of the body sees
  \<^verbatim>\<open>o.done\<close>, leaves by \<^verbatim>\<open>break\<close> without looking at \<^verbatim>\<open>o.value\<close>, and the
  requested command \<^verbatim>\<open>echo hi\<close> is started. The task's result is the success block
  around the output of the command, not the error of \<^verbatim>\<open>rev-parse\<close>.
\<close>

theorem revparse_error_runs_command:
  "launched (exec revparse_fails 5 example_task (replicate 9 Tick) (start [(5, example_task)]))
     = [(''mkdir'', [''-p'', ''/tmp/r'']),
        (''git'', [''clone'', ''--quiet'', ''https://github.com/o/r'', ''/tmp/r'']),
        (''git'', [''rev-parse'', ''HEAD'']),
        (''echo'', [''hi''])]
   \<and> delivered (exec revparse_fails 5 example_task (replicate 9 Tick) (start [(5, example_task)]))
     = [Str (resultsMessage ''echo hi'' (Str ''ok''))]"
  by code_simp

section \<open>Delivery of the result\<close>

lemma moved_return_with:
  "2 < n \<Longrightarrow> delivered c' = delivered c \<Longrightarrow> isAlive c' = isAlive c
   \<Longrightarrow> store_of c' = store_of c \<Longrightarrow> moved n c (return_with r c')"
  by (simp add: moved_def return_with_def)

lemma moved_after_loop:
  "3 < n \<Longrightarrow> delivered c' = delivered c \<Longrightarrow> isAlive c' = isAlive c
   \<Longrightarrow> store_of c' = store_of c \<Longrightarrow> returned c' = returned c \<Longrightarrow> moved n c (after_loop t c')"
  by (simp add: moved_def after_loop_def return_with_def launch_def)

lemma moved_suspend_at:
  "3 + gen_rank g < n \<Longrightarrow> delivered c' = delivered c \<Longrightarrow> isAlive c' = isAlive c
   \<Longrightarrow> store_of c' = store_of c \<Longrightarrow> returned c' = returned c \<Longrightarrow> moved n c (suspend_at t g c')"
  by (simp add: moved_def suspend_at_def launch_def split: gen_op.splits)

lemma next_point_rank: "next_point g = Some g' \<Longrightarrow> gen_rank g' < gen_rank g"
  by (cases g) auto

lemma gen_rank_pos: "0 < gen_rank g"
  by (cases g) auto

lemma moved_resume_after:
  assumes "delivered c' = delivered c" "isAlive c' = isAlive c" "store_of c' = store_of c"
    "returned c' = returned c"
  shows "moved (3 + gen_rank g) c (resume_after t g c')"
proof (cases "next_point g")
  case None
  have "3 < 3 + gen_rank g" using gen_rank_pos [of g] by simp
  then show ?thesis using None assms by (simp add: resume_after_def moved_after_loop)
next
  case (Some g')
  then have "3 + gen_rank g' < 3 + gen_rank g" using next_point_rank by simp
  then show ?thesis using Some assms by (simp add: resume_after_def moved_suspend_at)
qed

lemma moved_settle: "moved (3 + gen_rank g) c (settle w t g c)"
proof -
  have pos: "3 < 3 + gen_rank g" "2 < 3 + gen_rank g" using gen_rank_pos [of g] by simp_all
  show ?thesis
    unfolding settle_def
    by (auto split: gen_op.splits CommandOutput.splits sum.splits
        intro!: moved_return_with moved_resume_after moved_after_loop pos)
qed

lemma moved_once: "moved n c c' \<Longrightarrow> delivered c = [] \<Longrightarrow> once c'"
  by (auto simp: moved_def once_def split: body_point.splits)

lemma moved_undisturbed: "moved n c c' \<Longrightarrow> isAlive c \<Longrightarrow> undisturbed c'"
  by (auto simp: moved_def undisturbed_def split: body_point.splits)

lemma moved_suppressed: "moved n c c' \<Longrightarrow> \<not> isAlive c \<Longrightarrow> delivered c = [] \<Longrightarrow> suppressed c'"
  by (auto simp: moved_def suppressed_def split: body_point.splits)

lemma moved_remaining: "moved n c c' \<Longrightarrow> remaining (point c') < n"
  by (simp add: moved_def)

lemma moved_Logging: "moved 14 c (tick w i t (c\<lparr>point := Logging\<rparr>))"
  by (simp add: tick_def moved_return_with moved_suspend_at)

lemma moved_Command: "moved 3 c (tick w i t (c\<lparr>point := Command\<rparr>))"
  by (simp add: tick_def moved_return_with Let_def)

text \<open>What one turn does, by where the task stands.\<close>

lemma tick_cases:
  "point c = Waiting \<and> tick w i t c = c\<lparr>point := Logging\<rparr>
   \<or> point c \<in> {Logging, Command} \<union> range Prepare \<and> moved (remaining (point c)) c (tick w i t c)
   \<or> (\<exists>r. point c = Returned r \<and> tick w i t c = (terminate i c)\<lparr>point := Terminating (isAlive c) r\<rparr>)
   \<or> (\<exists>b r. point c = Terminating b r \<and>
         tick w i t c = c\<lparr>point := Finished, delivered := (if b then delivered c @ [r] else delivered c)\<rparr>)
   \<or> point c = Finished \<and> tick w i t c = c"
proof (cases "point c")
  case Logging
  then have "c = c\<lparr>point := Logging\<rparr>" by simp
  then have "moved 14 c (tick w i t c)" using moved_Logging [of c w i t] by simp
  then show ?thesis using Logging by simp
next
  case (Prepare g)
  then show ?thesis using moved_settle [of g c w t] by (simp add: tick_def)
next
  case Command
  then have "c = c\<lparr>point := Command\<rparr>" by simp
  then have "moved 3 c (tick w i t c)" using moved_Command [of c w i t] by simp
  then show ?thesis using Command by simp
qed (simp_all add: tick_def)

lemma once_tick: "once c \<Longrightarrow> once (tick w i t c)"
  using tick_cases [of c w i t]
  by (auto simp: once_def terminate_def dest: moved_once)

lemma once_terminate: "once c \<Longrightarrow> once (terminate i c)"
  by (simp add: once_def terminate_def split: body_point.splits)

lemma once_step: "once c \<Longrightarrow> once (step w i t c ev)"
  by (cases ev) (simp_all add: once_tick once_terminate)

lemma once_exec: "once c \<Longrightarrow> once (exec w i t evs c)"
  unfolding exec_def by (induction evs arbitrary: c) (simp_all add: once_step)

lemma once_start: "once (start s)"
  by (simp add: once_def start_def)

lemma undisturbed_tick: "undisturbed c \<Longrightarrow> undisturbed (tick w i t c)"
  using tick_cases [of c w i t]
  by (auto simp: undisturbed_def terminate_def dest: moved_undisturbed)

lemma undisturbed_ticks: "undisturbed c \<Longrightarrow> undisturbed (exec w i t (replicate n Tick) c)"
  unfolding exec_def by (induction n arbitrary: c) (simp_all add: undisturbed_tick)

lemma suppressed_tick: "suppressed c \<Longrightarrow> suppressed (tick w i t c)"
  using tick_cases [of c w i t]
  by (auto simp: suppressed_def terminate_def dest: moved_suppressed)

lemma suppressed_terminate: "suppressed c \<Longrightarrow> suppressed (terminate i c)"
  by (simp add: suppressed_def terminate_def split: body_point.splits)

lemma suppressed_step: "suppressed c \<Longrightarrow> suppressed (step w i t c ev)"
  by (cases ev) (simp_all add: suppressed_tick suppressed_terminate)

lemma suppressed_exec: "suppressed c \<Longrightarrow> suppressed (exec w i t evs c)"
  unfolding exec_def by (induction evs arbitrary: c) (simp_all add: suppressed_step)

lemma remaining_tick:
  "point c \<noteq> Finished \<Longrightarrow> remaining (point (tick w i t c)) < remaining (point c)"
  using tick_cases [of c w i t] by (auto dest: moved_remaining)

lemma remaining_ticks:
  "remaining (point (exec w i t (replicate n Tick) c)) \<le> remaining (point c) - n"
proof (induction n arbitrary: c)
  case 0
  then show ?case by (simp add: exec_def)
next
  case (Suc n)
  have e: "exec w i t (replicate (Suc n) Tick) c = exec w i t (replicate n Tick) (tick w i t c)"
    by (simp add: exec_def)
  show ?case
  proof (cases "point c = Finished")
    case True
    then have "remaining (point (tick w i t c)) = 0" by (simp add: tick_def)
    then show ?thesis using Suc [of "tick w i t c"] e by simp
  next
    case False
    then show ?thesis using remaining_tick [of c w i t] Suc [of "tick w i t c"] e by simp
  qed
qed

lemma remaining_0: "remaining p = 0 \<Longrightarrow> p = Finished"
  by (cases p) auto

lemma no_cancel: "Cancel \<notin> set evs \<Longrightarrow> evs = replicate (length evs) Tick"
proof (induction evs)
  case Nil
  then show ?case by simp
next
  case (Cons e evs)
  then show ?case by (cases e) auto
qed

text \<open>
  C1, as amended. For every submitted task, every environment and every schedule of
  the task's own turns and of calls of its \<^verbatim>\<open>cancel\<close>: the result sink is invoked
  at most once, and only with the value the body returned. It is invoked exactly once,
  with that value, when no \<^verbatim>\<open>cancel\<close> is called and the task is given its turns
  (fifteen suffice). It is never invoked when \<^verbatim>\<open>cancel\<close> is called before
  \<^verbatim>\<open>afterExecution\<close> has read the flag: a cancelled task delivers nothing, the
  cancellation message included. Store operations are taken to succeed.
\<close>

theorem result_delivered_at_most_once:
  "length (delivered (exec w i t evs (start s))) \<le> 1
   \<and> (\<forall>r \<in> set (delivered (exec w i t evs (start s))).
         returned (exec w i t evs (start s)) = Some r)
   \<and> (Cancel \<notin> set evs \<and> 15 \<le> length evs \<longrightarrow>
        point (exec w i t evs (start s)) = Finished \<and>
        map Some (delivered (exec w i t evs (start s))) = [returned (exec w i t evs (start s))])
   \<and> (in_body (point (exec w i t evs (start s))) \<longrightarrow>
        delivered (exec w i t (evs @ Cancel # evs') (start s)) = [])"
proof -
  let ?c = "exec w i t evs (start s)"
  have o: "once ?c" by (simp add: once_exec once_start)
  have 1: "length (delivered ?c) \<le> 1"
    using o by (auto simp: once_def split: body_point.splits)
  have 2: "\<forall>r \<in> set (delivered ?c). returned ?c = Some r"
    using o by (auto simp: once_def split: body_point.splits)
  have 3: "point ?c = Finished \<and> map Some (delivered ?c) = [returned ?c]"
    if "Cancel \<notin> set evs" "15 \<le> length evs"
  proof -
    have evs: "evs = replicate (length evs) Tick" using that(1) by (rule no_cancel)
    have "remaining (point (exec w i t (replicate (length evs) Tick) (start s))) \<le> 15 - length evs"
      using remaining_ticks [of w i t "length evs" "start s"] by (simp add: start_def)
    then have f: "point ?c = Finished" using evs that(2) remaining_0 by simp
    have "undisturbed (exec w i t (replicate (length evs) Tick) (start s))"
      by (rule undisturbed_ticks) (simp add: undisturbed_def start_def)
    then have "undisturbed ?c" using evs by simp
    then show ?thesis using f o by (simp add: undisturbed_def once_def)
  qed
  have 4: "delivered (exec w i t (evs @ Cancel # evs') (start s)) = []" if "in_body (point ?c)"
  proof -
    have "delivered ?c = []" using o that by (auto simp: once_def split: body_point.splits)
    then have "suppressed (terminate i ?c)"
      using that by (auto simp: suppressed_def terminate_def split: body_point.splits)
    then have "suppressed (exec w i t evs' (terminate i ?c))" by (rule suppressed_exec)
    moreover have "exec w i t (evs @ Cancel # evs') (start s) = exec w i t evs' (terminate i ?c)"
      by (simp add: exec_def)
    ultimately show ?thesis by (simp add: suppressed_def)
  qed
  show ?thesis using 1 2 3 4 by blast
qed

text \<open>The witness: a run with no cancellation, and a cancellation after the first turn.\<close>

theorem result_delivered_at_most_once_witness:
  "Cancel \<notin> set (replicate 15 Tick) \<and> 15 \<le> length (replicate 15 Tick :: event list)
   \<and> point (exec all_succeed 5 example_task (replicate 15 Tick) (start [(5, example_task)]))
       = Finished
   \<and> map Some (delivered (exec all_succeed 5 example_task (replicate 15 Tick)
                             (start [(5, example_task)])))
       = [returned (exec all_succeed 5 example_task (replicate 15 Tick) (start [(5, example_task)]))]
   \<and> in_body (point (exec all_succeed 5 example_task [Tick] (start [(5, example_task)])))
   \<and> delivered (exec all_succeed 5 example_task ([Tick] @ Cancel # [Tick, Tick, Tick])
                  (start [(5, example_task)])) = []"
proof -
  have a: "Cancel \<notin> set (replicate 15 Tick) \<and> 15 \<le> length (replicate 15 Tick :: event list)"
    by simp
  have b: "in_body (point (exec all_succeed 5 example_task [Tick] (start [(5, example_task)])))"
    by (simp add: exec_def tick_def start_def)
  show ?thesis
    using a b
      result_delivered_at_most_once
        [of all_succeed 5 example_task "replicate 15 Tick" "[(5, example_task)]"]
      result_delivered_at_most_once
        [of all_succeed 5 example_task "[Tick]" "[(5, example_task)]" "[Tick, Tick, Tick]"]
    by blast
qed

text \<open>
  C1 as the specification states it fails: the task is cancelled while it waits for
  the log line of its body, the body returns the cancellation message, and
  \<^verbatim>\<open>afterExecution\<close> finds \<^verbatim>\<open>wasAlive\<close> false. The task has finished and the
  result sink was never invoked.
\<close>

theorem result_delivered_once_counterexample:
  "point (exec all_succeed 5 example_task [Tick, Cancel, Tick, Tick, Tick]
            (start [(5, example_task)])) = Finished
   \<and> returned (exec all_succeed 5 example_task [Tick, Cancel, Tick, Tick, Tick]
                 (start [(5, example_task)])) = Some (Str ''Command was cancelled'')
   \<and> delivered (exec all_succeed 5 example_task [Tick, Cancel, Tick, Tick, Tick]
                  (start [(5, example_task)])) = []"
  by code_simp

section \<open>The queue message\<close>

lemma js_reduce_snoc:
  "js_reduce f init (xs @ [x]) = f (js_reduce f init xs) x (length xs)"
  by (simp add: js_reduce_def)

text \<open>A callback that ignores its accumulator makes \<^verbatim>\<open>reduce\<close> return what it
  returns for the last element.\<close>

lemma js_reduce_last:
  "xs \<noteq> [] \<Longrightarrow> js_reduce (\<lambda>acc v i. g v i) init xs = g (last xs) (length xs - 1)"
  by (cases xs rule: rev_cases) (simp_all add: js_reduce_snoc)

lemma getQueueMessage_last:
  assumes "getSortedItems s v False \<noteq> []"
  shows "getQueueMessage json s commandDisplay v =
     [CHR 0x0A] @ ''Queued '' @ commandDisplay @ [CHR 0x0A, CHR 0x0A]
     @ ''There are other items ahead of it in the queue: ''
     @ queueItemDisplay json (last (getSortedItems s v False))
         (length (getSortedItems s v False) - 1)"
  using assms by (simp add: getQueueMessage_def Let_def js_reduce_last)

lemma getQueueMessage_none:
  "getSortedItems s v False = [] \<Longrightarrow>
   getQueueMessage json s commandDisplay v = ''Executing '' @ commandDisplay"
  by (simp add: getQueueMessage_def)

text \<open>
  C9 fails on the code: the callback of \<^verbatim>\<open>items.reduce\<close> never uses its
  accumulator, so the message shows the last item of the scan only. With the two
  peers \<^verbatim>\<open>bob\<close> (id 1) and \<^verbatim>\<open>carol\<close> (id 2) in the store, the message for a third
  task holds the entry of \<^verbatim>\<open>carol\<close>, numbered 2, and nothing of \<^verbatim>\<open>bob\<close>.
\<close>

theorem getQueueMessage_shows_last_peer_only:
  "getQueueMessage show_requester two_peers ''echo hi'' ''v1'' =
     [CHR 0x0A] @ ''Queued echo hi'' @ [CHR 0x0A, CHR 0x0A]
     @ ''There are other items ahead of it in the queue: ''
     @ queueItemDisplay show_requester (2, example_task\<lparr>requester := ''carol''\<rparr>) 1"
  by code_simp

section \<open>The startup reconciler: what it does to the store\<close>




lemma mutexQueue_queue: "mutexQueue (snd (queue json now t h a)) = mutexQueue a @ [(now, h, t)]"
  by (simp add: queue_def Let_def)



lemma mutexQueue_requeue_step:
  "mutexQueue (snd (queue json now (snd item) h (a\<lparr>db := db_del (fst item) (db a)\<rparr>)))
     = mutexQueue a @ [(now, h, snd item)]"
  by (simp add: mutexQueue_queue)











text \<open>When the pass of the first task rejects after \<^verbatim>\<open>db.del\<close>, the task is gone
  from the store and is not resubmitted, and the loop ends.\<close>

lemma rejection_after_delete:
  "requeueUnterminated show_requester False (\<lambda>n. Some ResubmitRejects) (\<lambda>n. 5 + n) ''v1'' two_stale
     = (False, two_stale\<lparr>db := [(2, stale_task\<lparr>pull_number := 8\<rparr>)]\<rparr>)"
  by (simp add: requeueUnterminated_def getSortedItems_def two_stale_def stale_task_def
      example_task_def db_del_def)

text \<open>
  C8 fails on the code: the task id is the reading of the clock,
  \<^verbatim>\<open>new Date().toISOString()\<close>, and nothing keeps two passes of the reconciler's
  loop from reading the same millisecond. With two stale tasks (pull requests 7 and 8)
  and both readings equal to 5, the second \<^verbatim>\<open>db.put\<close> overwrites the first: two
  bodies are handed to the mutex under the one id 5, and the store holds a single entry,
  the task of pull request 8. The task of pull request 7 has no store entry of its own.
\<close>

theorem resubmitted_under_one_id:
  "fst (requeueUnterminated show_requester False no_rejection (\<lambda>n. 5) ''v1'' two_stale)
   \<and> db (snd (requeueUnterminated show_requester False no_rejection (\<lambda>n. 5) ''v1'' two_stale))
       = [(5, stale_task\<lparr>pull_number := 8\<rparr>)]
   \<and> mutexQueue (snd (requeueUnterminated show_requester False no_rejection (\<lambda>n. 5) ''v1'' two_stale))
       = [(5, ''owner: o, repo: r, pull: 7'', stale_task),
          (5, ''owner: o, repo: r, pull: 8'', stale_task\<lparr>pull_number := 8\<rparr>)]"
  by code_simp

section \<open>The remote pipeline adapter: waiting and restoring\<close>

text \<open>The cancellation channel wins the race when it fires before the next answer.\<close>

lemma waitUntilFinished_cancelled:
  "waitUntilFinished (Suc fuel) fetch globalStatus g p (Some k) k = Resolved ''finished''"
  by simp

text \<open>On a terminal status the promise settles with the global \<^verbatim>\<open>status\<close>, whatever
  the status observed.\<close>

lemma waitUntilFinished_terminal:
  assumes "finishedAfter \<noteq> Some k"
    and "fetch k GET
           (''https://'' @ domain g @ ''/api/v4/projects/'' @ show_nat (projectId p)
            @ ''/pipeline/'' @ show_nat (pipelineId p))
           (accessToken g) = Replies ok body st"
    and "isTerminalStatus st"
  shows "waitUntilFinished (Suc fuel) fetch globalStatus g p finishedAfter k
           = (case globalStatus of
                None \<Rightarrow> Rejected ''ReferenceError: status is not defined''
              | Some v \<Rightarrow> Resolved v)"
  using assms by simp

text \<open>
  C6 fails on the code: the polls answer \<^verbatim>\<open>running\<close>, \<^verbatim>\<open>running\<close>,
  \<^verbatim>\<open>success\<close> and the channel never fires. At the third poll the source executes
  \<^verbatim>\<open>resolve(status)\<close>, where \<^verbatim>\<open>status\<close> is not the status observed but an
  undeclared name, and the promise is rejected with a ReferenceError.
\<close>

theorem waitUntilFinished_rejects_on_success:
  "waitUntilFinished 5 running_twice None example_gitlab example_pipeline None 0
     = Rejected ''ReferenceError: status is not defined''"
  by code_simp

text \<open>The wait reads the remote by GET requests for the pipeline only.\<close>

lemma waitUntilFinished_reads_pipeline:
  assumes "\<forall>k. f k GET
                 (''https://'' @ domain g @ ''/api/v4/projects/'' @ show_nat (projectId p)
                  @ ''/pipeline/'' @ show_nat (pipelineId p))
                 (accessToken g)
             = f' k GET
                 (''https://'' @ domain g @ ''/api/v4/projects/'' @ show_nat (projectId p)
                  @ ''/pipeline/'' @ show_nat (pipelineId p))
                 (accessToken g)"
  shows "waitUntilFinished fuel f gs g p fin k = waitUntilFinished fuel f' gs g p fin k"
  using assms by (induction fuel arbitrary: k) (simp_all split: reply.splits)

text \<open>
  C10. \<^verbatim>\<open>restoreTaskGitlabContext\<close> resolves with \<^verbatim>\<open>undefined\<close> when the task
  has no recorded pipeline. Otherwise it asks the remote for the recorded pipeline, by
  the project id and the pipeline id in the URL of its request, and, when the remote
  replies, resolves with \<^verbatim>\<open>null\<close> exactly when the status is \<^verbatim>\<open>canceled\<close> or
  \<^verbatim>\<open>failed\<close>; for every other reply it resolves with a live handle that carries the
  id, the project id and the URL of the recorded pipeline. The \<^verbatim>\<open>terminate\<close> of the
  handle posts to the cancel URL of that pipeline. Its \<^verbatim>\<open>waitUntilFinished\<close> is the
  wait over that pipeline: it reads the remote by GET requests for that pipeline only,
  and a rejection of the first of them rejects the wait.
\<close>

theorem restoreTaskGitlabContext_cases:
  "(gitlab_pipeline task = None \<longrightarrow> restoreTaskGitlabContext fetch g task = Resolved Undefined)
   \<and> (gitlab_pipeline task = Some p
        \<and> fetch 0 POST
            (''https://'' @ domain g @ ''/api/v4/projects/'' @ show_nat (projectId p)
             @ ''/pipeline/'' @ show_nat (pipelineId p))
            (accessToken g) = Replies ok body st \<longrightarrow>
        (restoreTaskGitlabContext fetch g task = Resolved Null
           \<longleftrightarrow> st = Some ''canceled'' \<or> st = Some ''failed'')
        \<and> (st \<noteq> Some ''canceled'' \<and> st \<noteq> Some ''failed'' \<longrightarrow>
             (\<exists>h. restoreTaskGitlabContext fetch g task = Resolved (Live h)
                  \<and> pipelineId h = pipelineId p \<and> projectId h = projectId p
                  \<and> webUrl h = webUrl p
                  \<and> (\<forall>f. h_terminate h f
                        = (case f 0 POST
                                  (''https://'' @ domain g @ ''/api/v4/projects/''
                                   @ show_nat (projectId p) @ ''/pipeline/''
                                   @ show_nat (pipelineId p) @ ''/cancel'')
                                  (accessToken g) of
                             Rejects e \<Rightarrow> Rejected e
                           | Replies ok' body' st' \<Rightarrow>
                               if ok' then Resolved None else Resolved (Some body')))
                  \<and> h_waitUntilFinished h
                      = (\<lambda>fuel f globalStatus finishedAfter.
                           waitUntilFinished fuel f globalStatus g p finishedAfter 0)
                  \<and> (\<forall>fuel f f' globalStatus finishedAfter.
                        (\<forall>k. f k GET
                                (''https://'' @ domain g @ ''/api/v4/projects/''
                                 @ show_nat (projectId p) @ ''/pipeline/''
                                 @ show_nat (pipelineId p))
                                (accessToken g)
                            = f' k GET
                                (''https://'' @ domain g @ ''/api/v4/projects/''
                                 @ show_nat (projectId p) @ ''/pipeline/''
                                 @ show_nat (pipelineId p))
                                (accessToken g)) \<longrightarrow>
                        h_waitUntilFinished h fuel f globalStatus finishedAfter
                          = h_waitUntilFinished h fuel f' globalStatus finishedAfter)
                  \<and> (\<forall>fuel f globalStatus finishedAfter e.
                        finishedAfter \<noteq> Some 0
                        \<and> f 0 GET
                            (''https://'' @ domain g @ ''/api/v4/projects/''
                             @ show_nat (projectId p) @ ''/pipeline/''
                             @ show_nat (pipelineId p))
                            (accessToken g) = Rejects e \<longrightarrow>
                        h_waitUntilFinished h (Suc fuel) f globalStatus finishedAfter
                          = Rejected e))))"
  (is "?none \<and> (?asked \<longrightarrow> ?null \<and> (?other \<longrightarrow> ?live))")
proof -
  let ?h = "getLiveTaskGitlabContext g p"
  have none: ?none by (simp add: restoreTaskGitlabContext_def)
  have wait: "h_waitUntilFinished ?h
                = (\<lambda>fuel f globalStatus finishedAfter.
                     waitUntilFinished fuel f globalStatus g p finishedAfter 0)"
    by (simp add: getLiveTaskGitlabContext_def)
  have some: "?null \<and> (?other \<longrightarrow> ?live)" if asked: ?asked
  proof -
    have r: "restoreTaskGitlabContext fetch g task
               = (if st = Some ''canceled'' \<or> st = Some ''failed'' then Resolved Null
                  else Resolved (Live ?h))"
      using asked by (simp add: restoreTaskGitlabContext_def)
    have null: ?null using r by simp
    have live: ?live if other: ?other
    proof (intro exI [of _ ?h] conjI)
      show "restoreTaskGitlabContext fetch g task = Resolved (Live ?h)"
        using r other by simp
      show "pipelineId ?h = pipelineId p" by (simp add: getLiveTaskGitlabContext_def)
      show "projectId ?h = projectId p" by (simp add: getLiveTaskGitlabContext_def)
      show "webUrl ?h = webUrl p" by (simp add: getLiveTaskGitlabContext_def)
      show "\<forall>f. h_terminate ?h f
                = (case f 0 POST
                          (''https://'' @ domain g @ ''/api/v4/projects/''
                           @ show_nat (projectId p) @ ''/pipeline/''
                           @ show_nat (pipelineId p) @ ''/cancel'')
                          (accessToken g) of
                     Rejects e \<Rightarrow> Rejected e
                   | Replies ok' body' st' \<Rightarrow>
                       if ok' then Resolved None else Resolved (Some body'))"
        by (simp add: getLiveTaskGitlabContext_def cancelGitlabPipeline_def)
      show "h_waitUntilFinished ?h
              = (\<lambda>fuel f globalStatus finishedAfter.
                   waitUntilFinished fuel f globalStatus g p finishedAfter 0)"
        by (rule wait)
      show "\<forall>fuel f f' globalStatus finishedAfter.
              (\<forall>k. f k GET
                      (''https://'' @ domain g @ ''/api/v4/projects/''
                       @ show_nat (projectId p) @ ''/pipeline/''
                       @ show_nat (pipelineId p))
                      (accessToken g)
                  = f' k GET
                      (''https://'' @ domain g @ ''/api/v4/projects/''
                       @ show_nat (projectId p) @ ''/pipeline/''
                       @ show_nat (pipelineId p))
                      (accessToken g)) \<longrightarrow>
              h_waitUntilFinished ?h fuel f globalStatus finishedAfter
                = h_waitUntilFinished ?h fuel f' globalStatus finishedAfter"
        unfolding wait by (intro allI impI) (rule waitUntilFinished_reads_pipeline)
      show "\<forall>fuel f globalStatus finishedAfter e.
              finishedAfter \<noteq> Some 0
              \<and> f 0 GET
                  (''https://'' @ domain g @ ''/api/v4/projects/''
                   @ show_nat (projectId p) @ ''/pipeline/''
                   @ show_nat (pipelineId p))
                  (accessToken g) = Rejects e \<longrightarrow>
              h_waitUntilFinished ?h (Suc fuel) f globalStatus finishedAfter = Rejected e"
        unfolding wait by simp
    qed
    show ?thesis using null live by blast
  qed
  show ?thesis using none some by blast
qed

text \<open>The witness: a remote that knows pipeline 1 of project 2 only.\<close>

theorem restoreTaskGitlabContext_cases_witness:
  "restoreTaskGitlabContext (pipeline_1_is ''success'') example_gitlab \<lparr>gitlab_pipeline = None\<rparr>
     = Resolved Undefined
   \<and> restoreTaskGitlabContext (pipeline_1_is ''failed'') example_gitlab
       \<lparr>gitlab_pipeline = Some example_pipeline\<rparr> = Resolved Null
   \<and> (\<exists>h. restoreTaskGitlabContext (pipeline_1_is ''success'') example_gitlab
             \<lparr>gitlab_pipeline = Some example_pipeline\<rparr> = Resolved (Live h)
          \<and> pipelineId h = pipelineId example_pipeline
          \<and> projectId h = projectId example_pipeline
          \<and> webUrl h = webUrl example_pipeline
          \<and> h_terminate h (pipeline_1_is ''success'') = Resolved None)"
proof -
  have f: "pipeline_1_is ''failed'' 0 POST
             (''https://'' @ domain example_gitlab @ ''/api/v4/projects/''
              @ show_nat (projectId example_pipeline) @ ''/pipeline/''
              @ show_nat (pipelineId example_pipeline))
             (accessToken example_gitlab) = Replies True [] (Some ''failed'')"
    by code_simp
  have s: "pipeline_1_is ''success'' 0 POST
             (''https://'' @ domain example_gitlab @ ''/api/v4/projects/''
              @ show_nat (projectId example_pipeline) @ ''/pipeline/''
              @ show_nat (pipelineId example_pipeline))
             (accessToken example_gitlab) = Replies True [] (Some ''success'')"
    by code_simp
  have c: "pipeline_1_is ''success'' 0 POST
             (''https://'' @ domain example_gitlab @ ''/api/v4/projects/''
              @ show_nat (projectId example_pipeline) @ ''/pipeline/''
              @ show_nat (pipelineId example_pipeline) @ ''/cancel'')
             (accessToken example_gitlab) = Replies True [] None"
    by code_simp
  have 1: "restoreTaskGitlabContext (pipeline_1_is ''success'') example_gitlab
             \<lparr>gitlab_pipeline = None\<rparr> = Resolved Undefined"
    using restoreTaskGitlabContext_cases
        [of "\<lparr>gitlab_pipeline = None\<rparr>" "pipeline_1_is ''success''" example_gitlab]
    by simp
  have 2: "restoreTaskGitlabContext (pipeline_1_is ''failed'') example_gitlab
             \<lparr>gitlab_pipeline = Some example_pipeline\<rparr> = Resolved Null"
    using f restoreTaskGitlabContext_cases
        [of "\<lparr>gitlab_pipeline = Some example_pipeline\<rparr>" "pipeline_1_is ''failed''"
          example_gitlab example_pipeline True "[]" "Some ''failed''"]
    by simp
  obtain h where h:
    "restoreTaskGitlabContext (pipeline_1_is ''success'') example_gitlab
       \<lparr>gitlab_pipeline = Some example_pipeline\<rparr> = Resolved (Live h)"
    "pipelineId h = pipelineId example_pipeline" "projectId h = projectId example_pipeline"
    "webUrl h = webUrl example_pipeline"
    "\<forall>f. h_terminate h f
       = (case f 0 POST
                 (''https://'' @ domain example_gitlab @ ''/api/v4/projects/''
                  @ show_nat (projectId example_pipeline) @ ''/pipeline/''
                  @ show_nat (pipelineId example_pipeline) @ ''/cancel'')
                 (accessToken example_gitlab) of
            Rejects e \<Rightarrow> Rejected e
          | Replies ok' body' st' \<Rightarrow> if ok' then Resolved None else Resolved (Some body'))"
    using s restoreTaskGitlabContext_cases
        [of "\<lparr>gitlab_pipeline = Some example_pipeline\<rparr>" "pipeline_1_is ''success''"
          example_gitlab example_pipeline True "[]" "Some ''success''"]
    by auto
  have "h_terminate h (pipeline_1_is ''success'') = Resolved None"
    using h(5) c by simp
  then show ?thesis using 1 2 h(1-4) by blast
qed

end
